theory Spec2Isabelle
  imports Main
begin

section \<open>Python values\<close>

text \<open>
  The middleware handles values decoded from JSON and values returned by the brokerage
  SDK. They are modelled by one datatype of Python values. A float is kept as a
  mantissa and a binary exponent (or an infinity or a NaN); the program only tests a
  float for truth and renders it with \<^verbatim>\<open>str\<close>. A dict is an association
  list with string keys, looked up by the first matching key.

  A string is kept as the bytes of its UTF-8 encoding, in a \<^typ>\<open>string\<close>.
\<close>

datatype pyfloat = Finite int int | Infinity bool | NaN

datatype pyval =
    PNone
  | PBool bool
  | PInt int
  | PFloat pyfloat
  | PStr string
  | PList "pyval list"
  | PDict "(string \<times> pyval) list"

text \<open>
  Exceptions are values. All of them derive from \<^verbatim>\<open>Exception\<close>, so every
  \<^verbatim>\<open>except Exception\<close> of the source catches each of them.
  \<open>LibError\<close> is an exception raised inside an external library (the brokerage SDK,
  the TOTP generator, the web framework).
\<close>

datatype exn =
    AttributeError pyval string
  | KeyError string
  | TypeError pyval
  | LibError string

fun float_truthy :: "pyfloat \<Rightarrow> bool" where
  "float_truthy (Finite m e) = (m \<noteq> 0)"
| "float_truthy (Infinity s) = True"
| "float_truthy NaN = True"

text \<open>Truth value testing, as \<^verbatim>\<open>not x\<close> and \<^verbatim>\<open>if x\<close> do it.\<close>

fun py_truthy :: "pyval \<Rightarrow> bool" where
  "py_truthy PNone = False"
| "py_truthy (PBool b) = b"
| "py_truthy (PInt i) = (i \<noteq> 0)"
| "py_truthy (PFloat f) = float_truthy f"
| "py_truthy (PStr s) = (s \<noteq> [])"
| "py_truthy (PList xs) = (xs \<noteq> [])"
| "py_truthy (PDict kvs) = (kvs \<noteq> [])"

fun is_str :: "pyval \<Rightarrow> bool" where
  "is_str (PStr s) = True"
| "is_str v = False"

fun is_dict :: "pyval \<Rightarrow> bool" where
  "is_dict (PDict kvs) = True"
| "is_dict v = False"

section \<open>The environment\<close>

text \<open>
  The external collaborators are parameters of the model: the SDK client constructor
  (it returns the handle of a new client object), the TOTP generator, the two brokerage
  calls, and what the Python runtime owns: \<^verbatim>\<open>str\<close> of a float, a list or a
  dict, the text of an exception, the clock, and the Unicode case mappings of strings
  that have a character outside ASCII. Each call may raise. The calls of the logger have
  no effect on a result and are left out.
\<close>

record env =
  SmartConnect :: "string \<Rightarrow> exn + nat"
  totp_now :: "string \<Rightarrow> exn + string"
  generateSession :: "nat \<Rightarrow> string \<Rightarrow> string \<Rightarrow> string \<Rightarrow> exn + pyval"
  placeOrder :: "nat \<Rightarrow> (string \<times> pyval) list \<Rightarrow> exn + pyval"
  str_other :: "pyval \<Rightarrow> string"
  str_exn :: "exn \<Rightarrow> string"
  now_iso :: string
  unicode_upper :: "string \<Rightarrow> string"
  unicode_lower :: "string \<Rightarrow> string"

section \<open>Strings and methods\<close>

text \<open>
  On a string of ASCII characters \<^verbatim>\<open>str.upper\<close> and \<^verbatim>\<open>str.lower\<close> map
  the letters a to z and A to Z and leave every other character. On a string with a
  character outside ASCII they follow the Unicode case mappings (the dotless i U+0131
  upper-cases to I, the Kelvin sign U+212A lower-cases to k): there the result is the
  runtime's, a parameter of the model.
\<close>

definition is_ascii :: "string \<Rightarrow> bool" where
  "is_ascii s = list_all (\<lambda>c. (of_char c :: nat) < 128) s"

definition ascii_upper :: "char \<Rightarrow> char" where
  "ascii_upper c =
     (let n = (of_char c :: nat) in if 97 \<le> n \<and> n \<le> 122 then char_of (n - 32) else c)"

definition ascii_lower :: "char \<Rightarrow> char" where
  "ascii_lower c =
     (let n = (of_char c :: nat) in if 65 \<le> n \<and> n \<le> 90 then char_of (n + 32) else c)"

definition upper :: "env \<Rightarrow> string \<Rightarrow> string" where
  "upper e s = (if is_ascii s then map ascii_upper s else unicode_upper e s)"

definition lower :: "env \<Rightarrow> string \<Rightarrow> string" where
  "lower e s = (if is_ascii s then map ascii_lower s else unicode_lower e s)"

text \<open>
  Two strings are the same up to letter case when their lower-case forms agree. This is
  the reading of ``case-insensitive exact match''; it is stated with \<open>lower\<close>, whereas
  the program normalises with \<open>upper\<close>.
\<close>

definition same_ignoring_case :: "env \<Rightarrow> string \<Rightarrow> string \<Rightarrow> bool" where
  "same_ignoring_case e s k = (lower e s = lower e k)"

text \<open>\<^verbatim>\<open>x.upper()\<close>: only a string has the method.\<close>

fun meth_upper :: "env \<Rightarrow> pyval \<Rightarrow> exn + string" where
  "meth_upper e (PStr s) = Inr (upper e s)"
| "meth_upper e v = Inl (AttributeError v ''upper'')"

text \<open>\<^verbatim>\<open>x.get(key, default)\<close>: only a dict has the method.\<close>

fun meth_get :: "pyval \<Rightarrow> string \<Rightarrow> pyval \<Rightarrow> exn + pyval" where
  "meth_get (PDict kvs) k d = Inr (case map_of kvs k of None \<Rightarrow> d | Some v \<Rightarrow> v)"
| "meth_get v k d = Inl (AttributeError v ''get'')"

text \<open>\<^verbatim>\<open>x[key]\<close> with a string key: a dict without the key raises KeyError, every
  other value raises TypeError.\<close>

fun subscript :: "pyval \<Rightarrow> string \<Rightarrow> exn + pyval" where
  "subscript (PDict kvs) k = (case map_of kvs k of None \<Rightarrow> Inl (KeyError k) | Some v \<Rightarrow> Inr v)"
| "subscript v k = Inl (TypeError v)"

text \<open>Decimal rendering of an integer, as \<^verbatim>\<open>str\<close> gives it.\<close>

fun str_nat_fuel :: "nat \<Rightarrow> nat \<Rightarrow> string" where
  "str_nat_fuel 0 n = [char_of (48 + n mod 10)]"
| "str_nat_fuel (Suc f) n =
     (if n < 10 then [char_of (48 + n)] else str_nat_fuel f (n div 10) @ [char_of (48 + n mod 10)])"

definition str_nat :: "nat \<Rightarrow> string" where
  "str_nat n = str_nat_fuel n n"

definition str_int :: "int \<Rightarrow> string" where
  "str_int i = (if i < 0 then CHR ''-'' # str_nat (nat (- i)) else str_nat (nat i))"

section \<open>The static tables\<close>

definition symbol_table :: "(string \<times> string) list" where
  "symbol_table =
     [(''NIFTY'', ''99926000''),
      (''BANKNIFTY'', ''99926009''),
      (''RELIANCE'', ''2885''),
      (''TCS'', ''11536''),
      (''INFY'', ''1594''),
      (''HDFCBANK'', ''1333''),
      (''ICICIBANK'', ''4963''),
      (''SBIN'', ''3045''),
      (''ITC'', ''424''),
      (''HINDUNILVR'', ''356'')]"

definition symbol_map :: "string \<Rightarrow> string option" where
  "symbol_map = map_of symbol_table"

definition signal_table :: "(string \<times> int) list" where
  "signal_table =
     [(''G_BOX'', 1),
      (''R_BOX'', 1),
      (''2G_BOX'', 2),
      (''2R_BOX'', 2),
      (''1G_BOX'', 1),
      (''1R_BOX'', 1),
      (''2GR_BOX'', 1),
      (''2RG_BOX'', 1)]"

definition signal_quantities :: "string \<Rightarrow> int option" where
  "signal_quantities = map_of signal_table"

section \<open>Symbol resolution and signal classification\<close>

text \<open>
  \<^verbatim>\<open>try: ... except Exception\<close>: the handler replaces every raised exception by
  its own result.
\<close>

definition try_except :: "exn + 'a \<Rightarrow> (exn \<Rightarrow> exn + 'a) \<Rightarrow> exn + 'a" where
  "try_except body handler = (case body of Inl x \<Rightarrow> handler x | Inr v \<Rightarrow> Inr v)"

text \<open>The body of \<^verbatim>\<open>get_symbol_token\<close>: \<^verbatim>\<open>symbol_map.get(symbol.upper())\<close>.\<close>

definition get_symbol_token_body :: "env \<Rightarrow> pyval \<Rightarrow> exn + string option" where
  "get_symbol_token_body e symbol =
     (case meth_upper e symbol of Inl x \<Rightarrow> Inl x | Inr u \<Rightarrow> Inr (symbol_map u))"

definition get_symbol_token :: "env \<Rightarrow> pyval \<Rightarrow> exn + string option" where
  "get_symbol_token e symbol = try_except (get_symbol_token_body e symbol) (\<lambda>x. Inr None)"

text \<open>
  \<^verbatim>\<open>signal_quantities.get(signal, 1)\<close>: the lookup hashes its key, which raises
  TypeError for a list or a dict; a key that is not a string equals no key of the table.
\<close>

fun get_quantity_for_signal :: "pyval \<Rightarrow> exn + int" where
  "get_quantity_for_signal (PStr s) =
     Inr (case signal_quantities s of None \<Rightarrow> 1 | Some q \<Rightarrow> q)"
| "get_quantity_for_signal (PList xs) = Inl (TypeError (PList xs))"
| "get_quantity_for_signal (PDict kvs) = Inl (TypeError (PDict kvs))"
| "get_quantity_for_signal v = Inr 1"

section \<open>The trader\<close>

record trader =
  api_key :: string
  username :: string
  password :: string
  totp_key :: string
  smart_api :: "nat option"
  auth_token :: pyval
  refresh_token :: pyval
  feed_token :: pyval
  default_quantity :: int
  product_type :: string
  order_type :: string

text \<open>\<^verbatim>\<open>AngelOneTrader.__init__\<close>, from the four credentials read from the environment.\<close>

definition init_trader :: "string \<Rightarrow> string \<Rightarrow> string \<Rightarrow> string \<Rightarrow> trader" where
  "init_trader k u p s =
     \<lparr>api_key = k, username = u, password = p, totp_key = s,
      smart_api = None, auth_token = PNone, refresh_token = PNone, feed_token = PNone,
      default_quantity = 1, product_type = ''MIS'', order_type = ''MARKET''\<rparr>"

text \<open>
  The calls a test double would count: the session-creation call, symbol resolution,
  the order-placement call, and the call of the dispatcher by the webhook handler.
  Every operation returns the calls it made, in order.
\<close>

datatype event =
    GenerateSession string string string
  | GetSymbolToken pyval
  | PlaceOrder "(string \<times> pyval) list"
  | Dispatch pyval pyval pyval pyval

text \<open>\<^verbatim>\<open>str(x)\<close> and the formatting of \<^verbatim>\<open>{x}\<close> in an f-string.\<close>

fun py_str :: "env \<Rightarrow> pyval \<Rightarrow> string" where
  "py_str e (PStr s) = s"
| "py_str e (PInt i) = str_int i"
| "py_str e PNone = ''None''"
| "py_str e (PBool b) = (if b then ''True'' else ''False'')"
| "py_str e v = str_other e v"

subsection \<open>login\<close>

text \<open>\<^verbatim>\<open>data['data'][k]\<close>\<close>

definition response_field :: "pyval \<Rightarrow> string \<Rightarrow> exn + pyval" where
  "response_field data k =
     (case subscript data ''data'' of Inl x \<Rightarrow> Inl x | Inr d \<Rightarrow> subscript d k)"

text \<open>
  The statements of \<^verbatim>\<open>login\<close> after the session-creation call: the test of
  \<^verbatim>\<open>data['status']\<close> and the three assignments, one after the other. An
  exception leaves the assignments made before it in place.
\<close>

definition login_store :: "trader \<Rightarrow> pyval \<Rightarrow> (exn + bool) \<times> trader" where
  "login_store t data =
     (case subscript data ''status'' of
        Inl x \<Rightarrow> (Inl x, t)
      | Inr st \<Rightarrow>
          if py_truthy st then
            (case response_field data ''jwtToken'' of
               Inl x \<Rightarrow> (Inl x, t)
             | Inr jwt \<Rightarrow>
                 let t2 = t\<lparr>auth_token := jwt\<rparr> in
                 (case response_field data ''refreshToken'' of
                    Inl x \<Rightarrow> (Inl x, t2)
                  | Inr rt \<Rightarrow>
                      let t3 = t2\<lparr>refresh_token := rt\<rparr> in
                      (case response_field data ''feedToken'' of
                         Inl x \<Rightarrow> (Inl x, t3)
                       | Inr ft \<Rightarrow> (Inr True, t3\<lparr>feed_token := ft\<rparr>))))
          else (Inr False, t))"

text \<open>The \<^verbatim>\<open>try\<close> block of \<^verbatim>\<open>login\<close>.\<close>

definition login_body :: "env \<Rightarrow> trader \<Rightarrow> (exn + bool) \<times> trader \<times> event list" where
  "login_body e t =
     (case SmartConnect e (api_key t) of
        Inl x \<Rightarrow> (Inl x, t, [])
      | Inr h \<Rightarrow>
          let t1 = t\<lparr>smart_api := Some h\<rparr> in
          (case totp_now e (totp_key t1) of
             Inl x \<Rightarrow> (Inl x, t1, [])
           | Inr totp \<Rightarrow>
               let evs = [GenerateSession (username t1) (password t1) totp] in
               (case generateSession e h (username t1) (password t1) totp of
                  Inl x \<Rightarrow> (Inl x, t1, evs)
                | Inr data \<Rightarrow>
                    (case login_store t1 data of (r, t2) \<Rightarrow> (r, t2, evs)))))"

text \<open>\<^verbatim>\<open>login\<close>: the handler logs the exception and returns False.\<close>

definition login :: "env \<Rightarrow> trader \<Rightarrow> (exn + bool) \<times> trader \<times> event list" where
  "login e t =
     (case login_body e t of
        (Inl x, t1, evs) \<Rightarrow> (Inr False, t1, evs)
      | (Inr b, t1, evs) \<Rightarrow> (Inr b, t1, evs))"

subsection \<open>place\_order\<close>

record outcome =
  status :: bool
  message :: string
  order_id :: "pyval option"

text \<open>\<^verbatim>\<open>d[k] = v\<close> on a dict.\<close>

fun dict_set :: "(string \<times> pyval) list \<Rightarrow> string \<Rightarrow> pyval \<Rightarrow> (string \<times> pyval) list" where
  "dict_set [] k v = [(k, v)]"
| "dict_set ((k', v') # kvs) k v =
     (if k' = k then (k, v) # kvs else (k', v') # dict_set kvs k v)"

text \<open>The order parameters and the price added for a limit order.\<close>

definition order_params ::
  "env \<Rightarrow> trader \<Rightarrow> pyval \<Rightarrow> string \<Rightarrow> string \<Rightarrow> pyval \<Rightarrow> pyval \<Rightarrow> (string \<times> pyval) list"
where
  "order_params e t symbol symbol_token transaction_type quantity price =
     (let params =
        [(''variety'', PStr ''NORMAL''),
         (''tradingsymbol'', symbol),
         (''symboltoken'', PStr symbol_token),
         (''transactiontype'', PStr transaction_type),
         (''exchange'', PStr ''NSE''),
         (''ordertype'', PStr (order_type t)),
         (''producttype'', PStr (product_type t)),
         (''duration'', PStr ''DAY''),
         (''quantity'', PStr (py_str e quantity))]
      in if order_type t = ''LIMIT'' \<and> py_truthy price
         then dict_set params ''price'' (PStr (py_str e price))
         else params)"

text \<open>The handling of the brokerage's answer to the order.\<close>

definition order_result :: "env \<Rightarrow> string \<Rightarrow> pyval \<Rightarrow> pyval \<Rightarrow> pyval \<Rightarrow> exn + outcome" where
  "order_result e transaction_type quantity symbol order_response =
     (let failed = \<lparr>status = False,
                     message = ''Order failed: '' @ py_str e order_response,
                     order_id = None\<rparr>
      in if py_truthy order_response then
           (case meth_get order_response ''status'' PNone of
              Inl x \<Rightarrow> Inl x
            | Inr st \<Rightarrow>
                if py_truthy st then
                  (case response_field order_response ''orderid'' of
                     Inl x \<Rightarrow> Inl x
                   | Inr oid \<Rightarrow>
                       Inr \<lparr>status = True,
                            message = ''Order placed: '' @ transaction_type @ '' ''
                                      @ py_str e quantity @ '' '' @ py_str e symbol,
                            order_id = Some oid\<rparr>)
                else Inr failed)
         else Inr failed)"

text \<open>
  \<^verbatim>\<open>place_order\<close> from the symbol lookup on. Nothing here assigns to a field of
  the trader, so the trader is read and not returned.
\<close>

definition place_order_submit ::
  "env \<Rightarrow> trader \<Rightarrow> pyval \<Rightarrow> pyval \<Rightarrow> pyval \<Rightarrow> pyval \<Rightarrow> (exn + outcome) \<times> event list"
where
  "place_order_submit e t symbol action quantity price =
     (let not_found = \<lparr>status = False,
                        message = ''Symbol token not found for '' @ py_str e symbol,
                        order_id = None\<rparr>
      in case get_symbol_token e symbol of
           Inl x \<Rightarrow> (Inl x, [GetSymbolToken symbol])
         | Inr None \<Rightarrow> (Inr not_found, [GetSymbolToken symbol])
         | Inr (Some symbol_token) \<Rightarrow>
             if symbol_token = [] then (Inr not_found, [GetSymbolToken symbol])
             else
               let quantity1 = (if \<not> py_truthy quantity then PInt (default_quantity t)
                                else quantity)
               in (case meth_upper e action of
                     Inl x \<Rightarrow> (Inl x, [GetSymbolToken symbol])
                   | Inr a \<Rightarrow>
                       let transaction_type = (if a = ''BUY'' then ''BUY'' else ''SELL'');
                           params = order_params e t symbol symbol_token transaction_type
                                      quantity1 price
                       in (case smart_api t of
                             None \<Rightarrow>
                               (Inl (AttributeError PNone ''placeOrder''),
                                [GetSymbolToken symbol])
                           | Some h \<Rightarrow>
                               (case placeOrder e h params of
                                  Inl x \<Rightarrow>
                                    (Inl x, [GetSymbolToken symbol, PlaceOrder params])
                                | Inr order_response \<Rightarrow>
                                    (order_result e transaction_type quantity1 symbol
                                       order_response,
                                     [GetSymbolToken symbol, PlaceOrder params])))))"

text \<open>The guard of \<^verbatim>\<open>place_order\<close>: \<^verbatim>\<open>self.smart_api and self.auth_token\<close>.\<close>

definition session_present :: "trader \<Rightarrow> bool" where
  "session_present t = (smart_api t \<noteq> None \<and> py_truthy (auth_token t))"

text \<open>The \<^verbatim>\<open>try\<close> block of \<^verbatim>\<open>place_order\<close>.\<close>

definition place_order_body ::
  "env \<Rightarrow> trader \<Rightarrow> pyval \<Rightarrow> pyval \<Rightarrow> pyval \<Rightarrow> pyval
     \<Rightarrow> (exn + outcome) \<times> trader \<times> event list"
where
  "place_order_body e t symbol action quantity price =
     (if smart_api t = None \<or> \<not> py_truthy (auth_token t) then
        (case login e t of
           (Inl x, t1, evs) \<Rightarrow> (Inl x, t1, evs)
         | (Inr logged_in, t1, evs) \<Rightarrow>
             if \<not> logged_in then
               (Inr \<lparr>status = False, message = ''Login failed'', order_id = None\<rparr>, t1, evs)
             else
               (case place_order_submit e t1 symbol action quantity price of
                  (r, evs2) \<Rightarrow> (r, t1, evs @ evs2)))
      else
        (case place_order_submit e t symbol action quantity price of
           (r, evs2) \<Rightarrow> (r, t, evs2)))"

text \<open>\<^verbatim>\<open>place_order\<close>: the handler turns every exception into a failure outcome.\<close>

definition place_order ::
  "env \<Rightarrow> trader \<Rightarrow> pyval \<Rightarrow> pyval \<Rightarrow> pyval \<Rightarrow> pyval
     \<Rightarrow> (exn + outcome) \<times> trader \<times> event list"
where
  "place_order e t symbol action quantity price =
     (case place_order_body e t symbol action quantity price of
        (Inl x, t1, evs) \<Rightarrow>
          (Inr \<lparr>status = False, message = ''Error: '' @ str_exn e x, order_id = None\<rparr>,
           t1, evs)
      | (Inr r, t1, evs) \<Rightarrow> (Inr r, t1, evs))"

subsection \<open>The HTTP handlers\<close>

text \<open>A response is the JSON object handed to \<^verbatim>\<open>jsonify\<close> and the status code.\<close>

record response =
  json :: "(string \<times> pyval) list"
  code :: nat

definition error_json :: "string \<Rightarrow> (string \<times> pyval) list" where
  "error_json m = [(''status'', PStr ''error''), (''message'', PStr m)]"

text \<open>
  The five reads of the webhook handler: \<^verbatim>\<open>data.get('action')\<close>,
  \<^verbatim>\<open>data.get('symbol', 'NIFTY')\<close>, \<^verbatim>\<open>data.get('signal')\<close>,
  \<^verbatim>\<open>data.get('price')\<close>, \<^verbatim>\<open>data.get('message')\<close>.
\<close>

definition webhook_fields :: "pyval \<Rightarrow> exn + (pyval \<times> pyval \<times> pyval \<times> pyval \<times> pyval)" where
  "webhook_fields data =
     (case meth_get data ''action'' PNone of
        Inl x \<Rightarrow> Inl x
      | Inr action \<Rightarrow>
          (case meth_get data ''symbol'' (PStr ''NIFTY'') of
             Inl x \<Rightarrow> Inl x
           | Inr symbol \<Rightarrow>
               (case meth_get data ''signal'' PNone of
                  Inl x \<Rightarrow> Inl x
                | Inr signal \<Rightarrow>
                    (case meth_get data ''price'' PNone of
                       Inl x \<Rightarrow> Inl x
                     | Inr price \<Rightarrow>
                         (case meth_get data ''message'' PNone of
                            Inl x \<Rightarrow> Inl x
                          | Inr msg \<Rightarrow> Inr (action, symbol, signal, price, msg))))))"

text \<open>The response built from the dispatcher's outcome.\<close>

definition webhook_response ::
  "env \<Rightarrow> outcome \<Rightarrow> pyval \<Rightarrow> pyval \<Rightarrow> pyval \<Rightarrow> int \<Rightarrow> response" where
  "webhook_response e result signal action symbol quantity =
     (let r = [(''status'', PStr (if status result then ''success'' else ''error'')),
               (''message'', PStr (message result)),
               (''timestamp'', PStr (now_iso e)),
               (''signal'', signal),
               (''action'', action),
               (''symbol'', symbol),
               (''quantity'', PInt quantity)];
          r1 = (case order_id result of
                  None \<Rightarrow> r
                | Some oid \<Rightarrow> if py_truthy oid then dict_set r ''order_id'' oid else r)
      in \<lparr>json = r1, code = (if status result then 200 else 400)\<rparr>)"

text \<open>
  The \<^verbatim>\<open>try\<close> block of \<^verbatim>\<open>webhook\<close>. Its first argument after the trader is
  what \<^verbatim>\<open>request.get_json()\<close> did: it returned a value or it raised.
\<close>

definition webhook_body ::
  "env \<Rightarrow> trader \<Rightarrow> exn + pyval \<Rightarrow> (exn + response) \<times> trader \<times> event list" where
  "webhook_body e t got =
     (case got of
        Inl x \<Rightarrow> (Inl x, t, [])
      | Inr data \<Rightarrow>
          if \<not> py_truthy data then
            (Inr \<lparr>json = error_json ''No data received'', code = 400\<rparr>, t, [])
          else
            (case webhook_fields data of
               Inl x \<Rightarrow> (Inl x, t, [])
             | Inr (action, symbol, signal, price, msg) \<Rightarrow>
                 if \<not> py_truthy action \<or> action \<notin> set [PStr ''BUY'', PStr ''SELL''] then
                   (Inr \<lparr>json = error_json ''Invalid action'', code = 400\<rparr>, t, [])
                 else
                   (case get_quantity_for_signal signal of
                      Inl x \<Rightarrow> (Inl x, t, [])
                    | Inr quantity \<Rightarrow>
                        (case place_order e t symbol action (PInt quantity) price of
                           (Inl x, t1, evs) \<Rightarrow>
                             (Inl x, t1, Dispatch symbol action (PInt quantity) price # evs)
                         | (Inr result, t1, evs) \<Rightarrow>
                             (Inr (webhook_response e result signal action symbol quantity),
                              t1,
                              Dispatch symbol action (PInt quantity) price # evs)))))"

text \<open>\<^verbatim>\<open>webhook\<close>: the handler answers every exception with status 500.\<close>

definition webhook :: "env \<Rightarrow> trader \<Rightarrow> exn + pyval \<Rightarrow> response \<times> trader \<times> event list" where
  "webhook e t got =
     (case webhook_body e t got of
        (Inl x, t1, evs) \<Rightarrow> (\<lparr>json = error_json (str_exn e x), code = 500\<rparr>, t1, evs)
      | (Inr r, t1, evs) \<Rightarrow> (r, t1, evs))"

section \<open>Observations and test doubles\<close>

text \<open>The kinds of calls, for counting them in the list of calls an operation made.\<close>

fun is_generate_session :: "event \<Rightarrow> bool" where
  "is_generate_session (GenerateSession u p c) = True"
| "is_generate_session ev = False"

fun is_get_symbol_token :: "event \<Rightarrow> bool" where
  "is_get_symbol_token (GetSymbolToken s) = True"
| "is_get_symbol_token ev = False"

fun is_place_order :: "event \<Rightarrow> bool" where
  "is_place_order (PlaceOrder ps) = True"
| "is_place_order ev = False"

text \<open>
  The order parameters that \<^verbatim>\<open>place_order\<close> builds from its arguments and a
  resolved token \<open>tok\<close>, \<open>u\<close> being the upper-cased action.
\<close>

definition submitted_params ::
  "env \<Rightarrow> trader \<Rightarrow> pyval \<Rightarrow> string \<Rightarrow> string \<Rightarrow> pyval \<Rightarrow> pyval \<Rightarrow> (string \<times> pyval) list"
where
  "submitted_params e t symbol tok u quantity price =
     order_params e t symbol tok (if u = ''BUY'' then ''BUY'' else ''SELL'')
       (if \<not> py_truthy quantity then PInt (default_quantity t) else quantity) price"

text \<open>\<^verbatim>\<open>d.get(k, default)\<close> on the items of a dict.\<close>

definition get_or :: "(string \<times> pyval) list \<Rightarrow> string \<Rightarrow> pyval \<Rightarrow> pyval" where
  "get_or kvs k d = (case map_of kvs k of None \<Rightarrow> d | Some v \<Rightarrow> v)"

text \<open>The action is one of the two literals that the webhook handler accepts.\<close>

definition valid_action :: "pyval \<Rightarrow> bool" where
  "valid_action action = (action = PStr ''BUY'' \<or> action = PStr ''SELL'')"



text \<open>
  A symbol equals some symbol of the resolver table up to letter case.
\<close>

definition matches_table :: "env \<Rightarrow> string \<Rightarrow> bool" where
  "matches_table e s = list_ex (\<lambda>kt. same_ignoring_case e s (fst kt)) symbol_table"

text \<open>
  Two strings with a character outside ASCII: ``itc'' written with the dotless i U+0131
  (UTF-8 C4 B1), and ``BANKNIFTY'' written with the Kelvin sign U+212A (UTF-8 E2 84 AA)
  for its K. The sample case mappings give what \<^verbatim>\<open>str.upper\<close> and
  \<^verbatim>\<open>str.lower\<close> give on these two strings: the first upper-cases to ``ITC'' and
  is its own lower-case form, the second is its own upper-case form and lower-cases to
  ``banknifty''. Only their values at these two strings are used.
\<close>

definition dotless_itc :: string where
  "dotless_itc = [CHR 0xC4, CHR 0xB1, CHR ''t'', CHR ''c'']"

definition kelvin_banknifty :: string where
  "kelvin_banknifty = ''BAN'' @ [CHR 0xE2, CHR 0x84, CHR 0xAA] @ ''NIFTY''"

definition sample_unicode_upper :: "string \<Rightarrow> string" where
  "sample_unicode_upper s = (if s = dotless_itc then ''ITC'' else s)"

definition sample_unicode_lower :: "string \<Rightarrow> string" where
  "sample_unicode_lower s = (if s = kelvin_banknifty then ''banknifty'' else s)"

text \<open>
  Test doubles: an environment whose brokerage gives fixed answers to the two calls, and
  some answers.
\<close>

definition sample_env :: "pyval \<Rightarrow> pyval \<Rightarrow> env" where
  "sample_env session_answer order_answer =
     \<lparr>SmartConnect = (\<lambda>k. Inr 1),
      totp_now = (\<lambda>k. Inr ''123456''),
      generateSession = (\<lambda>h u p c. Inr session_answer),
      placeOrder = (\<lambda>h ps. Inr order_answer),
      str_other = (\<lambda>v. ''<value>''),
      str_exn = (\<lambda>x. ''<exception>''),
      now_iso = ''2024-01-01T09:15:00'',
      unicode_upper = sample_unicode_upper,
      unicode_lower = sample_unicode_lower\<rparr>"

definition session_granted :: pyval where
  "session_granted =
     PDict [(''status'', PBool True),
            (''data'', PDict [(''jwtToken'', PStr ''jwt''),
                              (''refreshToken'', PStr ''refresh''),
                              (''feedToken'', PStr ''feed'')])]"

definition session_refused :: pyval where
  "session_refused = PDict [(''status'', PBool False), (''message'', PStr ''Invalid totp'')]"

definition session_empty_jwt :: pyval where
  "session_empty_jwt =
     PDict [(''status'', PBool True),
            (''data'', PDict [(''jwtToken'', PStr []),
                              (''refreshToken'', PStr ''refresh''),
                              (''feedToken'', PStr ''feed'')])]"

definition session_without_refresh :: pyval where
  "session_without_refresh =
     PDict [(''status'', PBool True), (''data'', PDict [(''jwtToken'', PStr ''jwt'')])]"

definition order_accepted :: pyval where
  "order_accepted =
     PDict [(''status'', PBool True), (''data'', PDict [(''orderid'', PStr ''ORD1'')])]"

definition sample_trader :: trader where
  "sample_trader = init_trader ''key'' ''user'' ''secret'' ''seed''"

text \<open>The trader after a login that the brokerage granted.\<close>

definition logged_in_trader :: trader where
  "logged_in_trader = fst (snd (login (sample_env session_granted order_accepted) sample_trader))"

text \<open>The same trader configured for limit orders.\<close>

definition limit_trader :: trader where
  "limit_trader = logged_in_trader\<lparr>order_type := ''LIMIT''\<rparr>"

text \<open>The trader after a login that the brokerage granted with an empty session token.\<close>

definition empty_token_trader :: trader where
  "empty_token_trader =
     fst (snd (login (sample_env session_empty_jwt order_accepted) sample_trader))"

section \<open>Properties of the static resolvers\<close>

subsection \<open>Letter case\<close>

lemma ascii_upper_lower: "ascii_upper (ascii_lower c) = ascii_upper c"
proof -
  define n where "n = (of_char c :: nat)"
  show ?thesis
  proof (cases "65 \<le> n \<and> n \<le> 90")
    case True
    then have m: "(n + 32) mod 256 = n + 32" by simp
    have l: "ascii_lower c = char_of (n + 32)"
      using True by (simp add: ascii_lower_def Let_def n_def)
    have "ascii_upper (char_of (n + 32)) = char_of n"
      using True by (simp add: ascii_upper_def Let_def m)
    moreover have "ascii_upper c = c"
      using True by (simp add: ascii_upper_def Let_def n_def)
    ultimately show ?thesis by (simp add: l n_def)
  next
    case False
    then have "ascii_lower c = c" by (auto simp: ascii_lower_def Let_def n_def)
    then show ?thesis by simp
  qed
qed

lemma ascii_lower_upper: "ascii_lower (ascii_upper c) = ascii_lower c"
proof -
  define n where "n = (of_char c :: nat)"
  show ?thesis
  proof (cases "97 \<le> n \<and> n \<le> 122")
    case True
    then have r: "65 \<le> n - 32" "n - 32 \<le> 90" "n - 32 + 32 = n" "n - 32 < 256"
      by arith+
    have m: "(n - 32) mod 256 = n - 32" using r(4) by (rule mod_less)
    have u: "ascii_upper c = char_of (n - 32)"
      using True by (simp add: ascii_upper_def Let_def n_def)
    have "ascii_lower (char_of (n - 32)) = char_of n"
      using r by (simp add: ascii_lower_def Let_def m)
    moreover have "ascii_lower c = c"
      using True by (simp add: ascii_lower_def Let_def n_def)
    ultimately show ?thesis by (simp add: u n_def)
  next
    case False
    then have "ascii_upper c = c" by (auto simp: ascii_upper_def Let_def n_def)
    then show ?thesis by simp
  qed
qed

lemma upper_ascii: "is_ascii s \<Longrightarrow> upper e s = map ascii_upper s"
  by (simp add: upper_def)

lemma lower_ascii: "is_ascii s \<Longrightarrow> lower e s = map ascii_lower s"
  by (simp add: lower_def)

lemma map_upper_lower: "map ascii_upper (map ascii_lower s) = map ascii_upper s"
  by (simp add: ascii_upper_lower)

subsection \<open>The symbol table\<close>

lemma symbol_table_keys:
  "(k, tok) \<in> set symbol_table \<Longrightarrow> is_ascii k \<and> map ascii_upper k = k"
proof -
  have "\<forall>(k, tok) \<in> set symbol_table. is_ascii k \<and> map ascii_upper k = k" by code_simp
  then show "(k, tok) \<in> set symbol_table \<Longrightarrow> is_ascii k \<and> map ascii_upper k = k"
    by blast
qed

lemma symbol_table_distinct: "distinct (map fst symbol_table)"
  by code_simp

lemma symbol_map_in: "(k, tok) \<in> set symbol_table \<Longrightarrow> symbol_map k = Some tok"
  unfolding symbol_map_def by (rule map_of_is_SomeI[OF symbol_table_distinct])

lemma get_symbol_token_str: "get_symbol_token e (PStr s) = Inr (symbol_map (upper e s))"
  by (simp add: get_symbol_token_def get_symbol_token_body_def try_except_def)

lemma get_symbol_token_Inr: "\<exists>r. get_symbol_token e v = Inr r"
  by (cases v) (simp_all add: get_symbol_token_def get_symbol_token_body_def try_except_def)

lemma get_symbol_token_Some_str:
  "get_symbol_token e v = Inr (Some tok) \<Longrightarrow>
   \<exists>s. v = PStr s \<and> symbol_map (upper e s) = Some tok"
  by (cases v) (simp_all add: get_symbol_token_def get_symbol_token_body_def try_except_def)

text \<open>
  C5. \<^verbatim>\<open>get_quantity_for_signal\<close> fails on no string and not on an absent signal: it
  returns 2 for the labels 2G\_BOX and 2R\_BOX and 1 for every other string (the six
  other labels of the table among them) and for None.
\<close>

theorem get_quantity_for_signal_total:
  "get_quantity_for_signal PNone = Inr 1
   \<and> get_quantity_for_signal (PStr s) = Inr (if s \<in> {''2G_BOX'', ''2R_BOX''} then 2 else 1)"
  by (auto simp: signal_quantities_def signal_table_def)

text \<open>
  C6, as amended. For a symbol string of ASCII characters: if it is the symbol of an
  entry of the table up to letter case, it resolves to the entry's token; if it is no
  symbol of the table up to letter case, it resolves to None. For every string, ASCII
  or not, the result is the table's entry for the upper-cased string.
\<close>

theorem get_symbol_token_case_insensitive:
  "(\<forall>k tok. is_ascii s \<and> (k, tok) \<in> set symbol_table \<and> same_ignoring_case e s k \<longrightarrow>
        get_symbol_token e (PStr s) = Inr (Some tok))
   \<and> (is_ascii s \<and> \<not> matches_table e s \<longrightarrow> get_symbol_token e (PStr s) = Inr None)
   \<and> get_symbol_token e (PStr s) = Inr (map_of symbol_table (upper e s))"
proof (intro conjI allI impI)
  fix k tok
  assume a: "is_ascii s \<and> (k, tok) \<in> set symbol_table \<and> same_ignoring_case e s k"
  then have mem: "(k, tok) \<in> set symbol_table" and s: "is_ascii s" by simp_all
  from symbol_table_keys[OF mem] have k: "is_ascii k" "map ascii_upper k = k" by simp_all
  from a have "map ascii_lower s = map ascii_lower k"
    by (simp add: same_ignoring_case_def lower_ascii s k(1))
  then have "map ascii_upper (map ascii_lower s) = map ascii_upper (map ascii_lower k)"
    by simp
  then have "map ascii_upper s = k" by (simp only: map_upper_lower k(2))
  then have "upper e s = k" by (simp add: upper_ascii s)
  with symbol_map_in[OF mem] show "get_symbol_token e (PStr s) = Inr (Some tok)"
    by (simp add: get_symbol_token_str)
next
  assume a: "is_ascii s \<and> \<not> matches_table e s"
  then have s: "is_ascii s" by simp
  have "symbol_map (upper e s) = None"
  proof (cases "symbol_map (upper e s)")
    case None
    then show ?thesis .
  next
    case (Some tok)
    then have mem: "(upper e s, tok) \<in> set symbol_table"
      unfolding symbol_map_def by (rule map_of_SomeD)
    from symbol_table_keys[OF mem] have "is_ascii (upper e s)" by simp
    then have "lower e (upper e s) = map ascii_lower (upper e s)" by (rule lower_ascii)
    also have "\<dots> = map ascii_lower s" by (simp add: upper_ascii s ascii_lower_upper)
    also have "\<dots> = lower e s" by (simp add: lower_ascii s)
    finally have "same_ignoring_case e s (upper e s)" by (simp add: same_ignoring_case_def)
    with mem have "matches_table e s"
      unfolding matches_table_def list_ex_iff by force
    with a show ?thesis by simp
  qed
  then show "get_symbol_token e (PStr s) = Inr None"
    by (simp add: get_symbol_token_str)
next
  show "get_symbol_token e (PStr s) = Inr (map_of symbol_table (upper e s))"
    by (simp add: get_symbol_token_str symbol_map_def)
qed

theorem get_symbol_token_case_insensitive_witness:
  "get_symbol_token (sample_env session_granted order_accepted) (PStr ''ReLiAnCe'') =
     Inr (Some ''2885'')
   \<and> get_symbol_token (sample_env session_granted order_accepted) (PStr ''UNKNOWNSYM'') =
     Inr None"
proof
  have h: "is_ascii ''ReLiAnCe'' \<and> (''RELIANCE'', ''2885'') \<in> set symbol_table
      \<and> same_ignoring_case (sample_env session_granted order_accepted)
          ''ReLiAnCe'' ''RELIANCE''"
    by code_simp
  from get_symbol_token_case_insensitive[of "''ReLiAnCe''"
      "sample_env session_granted order_accepted"] h
  show "get_symbol_token (sample_env session_granted order_accepted) (PStr ''ReLiAnCe'') =
     Inr (Some ''2885'')"
    by blast
next
  have h: "is_ascii ''UNKNOWNSYM''
      \<and> \<not> matches_table (sample_env session_granted order_accepted) ''UNKNOWNSYM''"
    by code_simp
  from get_symbol_token_case_insensitive[of "''UNKNOWNSYM''"
      "sample_env session_granted order_accepted"] h
  show "get_symbol_token (sample_env session_granted order_accepted) (PStr ''UNKNOWNSYM'') =
     Inr None"
    by blast
qed

text \<open>
  C6 as stated covers every string. The string ``itc'' written with the dotless i is
  no symbol of the table up to letter case, and it resolves to the token of ITC, because
  \<^verbatim>\<open>str.upper\<close> maps the dotless i to I. The string ``BANKNIFTY'' written with the
  Kelvin sign is BANKNIFTY up to letter case, and it resolves to None, because
  \<^verbatim>\<open>str.upper\<close> leaves the Kelvin sign.
\<close>

theorem get_symbol_token_unicode_counterexample:
  "\<not> matches_table (sample_env session_granted order_accepted) dotless_itc
   \<and> get_symbol_token (sample_env session_granted order_accepted) (PStr dotless_itc) =
       Inr (Some ''424'')
   \<and> same_ignoring_case (sample_env session_granted order_accepted)
       kelvin_banknifty ''BANKNIFTY''
   \<and> get_symbol_token (sample_env session_granted order_accepted) (PStr kelvin_banknifty) =
       Inr None"
  by code_simp

text \<open>
  C9. \<^verbatim>\<open>get_symbol_token\<close> returns for every value, and returns None for every
  value that is not a string: the AttributeError of \<^verbatim>\<open>symbol.upper()\<close> is caught
  inside it.
\<close>

theorem get_symbol_token_never_raises:
  "(\<exists>r. get_symbol_token e v = Inr r)
   \<and> (\<not> is_str v \<longrightarrow> get_symbol_token e v = Inr None)"
  by (cases v) (simp_all add: get_symbol_token_def get_symbol_token_body_def try_except_def)

theorem get_symbol_token_never_raises_witness:
  "\<not> is_str PNone
   \<and> get_symbol_token (sample_env session_granted order_accepted) PNone = Inr None"
  using get_symbol_token_never_raises[of "sample_env session_granted order_accepted" PNone]
  by simp

section \<open>Properties of login and place\_order\<close>

lemmas login_defs = login_def login_body_def login_store_def response_field_def

lemma login_Inr: "\<exists>b t' evs. login e t = (Inr b, t', evs)"
  by (auto simp: login_defs Let_def split: sum.splits prod.splits)

lemma login_events: "login e t = (r, t', evs) \<Longrightarrow> ev \<in> set evs \<Longrightarrow> is_generate_session ev"
  by (auto simp: login_defs Let_def split: sum.splits prod.splits if_splits)

lemma login_config:
  "login e t = (r, t', evs) \<Longrightarrow>
     order_type t' = order_type t \<and> product_type t' = product_type t
     \<and> default_quantity t' = default_quantity t"
  by (auto simp: login_defs Let_def split: sum.splits prod.splits if_splits)

lemma login_True_smart_api: "login e t = (Inr True, t', evs) \<Longrightarrow> smart_api t' \<noteq> None"
  by (auto simp: login_defs Let_def split: sum.splits prod.splits if_splits)

lemma symbol_table_tokens_nonempty: "(k, tok) \<in> set symbol_table \<Longrightarrow> tok \<noteq> []"
proof -
  have "\<forall>(k, tok) \<in> set symbol_table. tok \<noteq> []" by code_simp
  then show "(k, tok) \<in> set symbol_table \<Longrightarrow> tok \<noteq> []" by blast
qed

lemma get_symbol_token_nonempty: "get_symbol_token e s = Inr (Some tok) \<Longrightarrow> tok \<noteq> []"
proof -
  assume "get_symbol_token e s = Inr (Some tok)"
  then obtain s' where "symbol_map (upper e s') = Some tok"
    using get_symbol_token_Some_str by blast
  then have "(upper e s', tok) \<in> set symbol_table"
    unfolding symbol_map_def by (rule map_of_SomeD)
  then show ?thesis by (rule symbol_table_tokens_nonempty)
qed

lemma get_symbol_token_cases:
  "get_symbol_token e s = Inr None \<or> (\<exists>tok. get_symbol_token e s = Inr (Some tok) \<and> tok \<noteq> [])"
proof -
  obtain r where r: "get_symbol_token e s = Inr r" using get_symbol_token_Inr by blast
  show ?thesis
  proof (cases r)
    case None
    with r show ?thesis by simp
  next
    case (Some tok)
    with r get_symbol_token_nonempty[of e s tok] show ?thesis by simp
  qed
qed

lemma submit_not_found:
  "get_symbol_token e s = Inr None \<Longrightarrow>
   place_order_submit e t s a q p =
     (Inr \<lparr>status = False, message = ''Symbol token not found for '' @ py_str e s,
           order_id = None\<rparr>, [GetSymbolToken s])"
  by (simp add: place_order_submit_def)

lemma submit_found:
  "get_symbol_token e s = Inr (Some tok) \<Longrightarrow>
   place_order_submit e t s a q p =
     (case meth_upper e a of
        Inl x \<Rightarrow> (Inl x, [GetSymbolToken s])
      | Inr u \<Rightarrow>
          (case smart_api t of
             None \<Rightarrow> (Inl (AttributeError PNone ''placeOrder''), [GetSymbolToken s])
           | Some h \<Rightarrow>
               (case placeOrder e h (submitted_params e t s tok u q p) of
                  Inl x \<Rightarrow>
                    (Inl x, [GetSymbolToken s, PlaceOrder (submitted_params e t s tok u q p)])
                | Inr order_response \<Rightarrow>
                    (order_result e (if u = ''BUY'' then ''BUY'' else ''SELL'')
                       (if \<not> py_truthy q then PInt (default_quantity t) else q) s
                       order_response,
                     [GetSymbolToken s, PlaceOrder (submitted_params e t s tok u q p)]))))"
  using get_symbol_token_nonempty[of e s tok]
  by (simp add: place_order_submit_def submitted_params_def Let_def
           split: sum.splits option.splits)

lemma submit_events:
  "\<exists>r. place_order_submit e t s a q p = (r, [GetSymbolToken s])
     \<or> (\<exists>tok u. get_symbol_token e s = Inr (Some tok) \<and> meth_upper e a = Inr u
           \<and> smart_api t \<noteq> None
           \<and> place_order_submit e t s a q p =
               (r, [GetSymbolToken s, PlaceOrder (submitted_params e t s tok u q p)]))"
proof -
  from get_symbol_token_cases[of e s] show ?thesis
  proof
    assume "get_symbol_token e s = Inr None"
    then show ?thesis by (simp add: submit_not_found)
  next
    assume "\<exists>tok. get_symbol_token e s = Inr (Some tok) \<and> tok \<noteq> []"
    then obtain tok where tok: "get_symbol_token e s = Inr (Some tok)" by blast
    show ?thesis
    proof (cases "meth_upper e a")
      case (Inl x)
      then show ?thesis by (simp add: submit_found[OF tok])
    next
      case u: (Inr u)
      show ?thesis
      proof (cases "smart_api t")
        case None
        with u show ?thesis by (simp add: submit_found[OF tok])
      next
        case (Some h)
        show ?thesis
        proof (cases "placeOrder e h (submitted_params e t s tok u q p)")
          case (Inl x)
          with u Some tok show ?thesis by (simp add: submit_found[OF tok])
        next
          case (Inr resp)
          with u Some tok show ?thesis by (simp add: submit_found[OF tok])
        qed
      qed
    qed
  qed
qed

lemma submit_places:
  "get_symbol_token e s = Inr (Some tok) \<Longrightarrow> smart_api t \<noteq> None \<Longrightarrow>
   \<exists>r. place_order_submit e t s (PStr a) q p =
     (r, [GetSymbolToken s, PlaceOrder (submitted_params e t s tok (upper e a) q p)])"
  by (auto simp: submit_found split: sum.splits)

lemma submit_no_login:
  "place_order_submit e t s a q p = (r, evs) \<Longrightarrow> \<not> list_ex is_generate_session evs"
  using submit_events[of e t s a q p] by auto

lemma submit_place_order:
  "place_order_submit e t s a q p = (r, evs) \<Longrightarrow> PlaceOrder ps \<in> set evs \<Longrightarrow>
   \<exists>tok u. get_symbol_token e s = Inr (Some tok) \<and> meth_upper e a = Inr u
     \<and> smart_api t \<noteq> None \<and> ps = submitted_params e t s tok u q p"
  using submit_events[of e t s a q p] by auto

lemma submit_place_order_ex:
  "place_order_submit e t s a q p = (r, evs) \<Longrightarrow> list_ex is_place_order evs \<Longrightarrow>
   \<exists>tok. get_symbol_token e s = Inr (Some tok)"
  using submit_events[of e t s a q p] by auto

lemma submitted_params_transactiontype:
  "map_of (submitted_params e t s tok u q p) ''transactiontype'' =
     Some (PStr (if u = ''BUY'' then ''BUY'' else ''SELL''))"
  by (simp add: submitted_params_def order_params_def Let_def)

lemma body_present:
  assumes "session_present t"
  shows "place_order_body e t s a q p =
     (case place_order_submit e t s a q p of (r, evs) \<Rightarrow> (r, t, evs))"
proof -
  from assms have c: "\<not> (smart_api t = None \<or> \<not> py_truthy (auth_token t))"
    by (simp add: session_present_def)
  show ?thesis by (simp only: place_order_body_def c if_False)
qed

lemma body_absent:
  assumes "\<not> session_present t"
  shows "place_order_body e t s a q p =
     (case login e t of
        (Inl x, t1, evs) \<Rightarrow> (Inl x, t1, evs)
      | (Inr logged_in, t1, evs) \<Rightarrow>
          if \<not> logged_in then
            (Inr \<lparr>status = False, message = ''Login failed'', order_id = None\<rparr>, t1, evs)
          else
            (case place_order_submit e t1 s a q p of (r, evs2) \<Rightarrow> (r, t1, evs @ evs2)))"
proof -
  from assms have c: "smart_api t = None \<or> \<not> py_truthy (auth_token t)"
    by (simp add: session_present_def)
  show ?thesis by (simp only: place_order_body_def c if_True)
qed

lemma place_order_present:
  assumes "session_present t"
  shows "place_order e t s a q p =
     (case place_order_submit e t s a q p of
        (r, evs) \<Rightarrow>
          (Inr (case r of
                  Inl x \<Rightarrow> \<lparr>status = False, message = ''Error: '' @ str_exn e x,
                            order_id = None\<rparr>
                | Inr res \<Rightarrow> res), t, evs))"
proof -
  obtain r evs where sub: "place_order_submit e t s a q p = (r, evs)"
    by (cases "place_order_submit e t s a q p")
  show ?thesis
    by (cases r) (simp_all add: place_order_def body_present[OF assms] sub)
qed

lemma place_order_login_failed:
  assumes "\<not> session_present t" and "login e t = (Inr False, t1, evs1)"
  shows "place_order e t s a q p =
     (Inr \<lparr>status = False, message = ''Login failed'', order_id = None\<rparr>, t1, evs1)"
  by (simp add: place_order_def body_absent[OF assms(1)] assms(2))

lemma place_order_login_ok:
  assumes "\<not> session_present t" and "login e t = (Inr True, t1, evs1)"
  shows "place_order e t s a q p =
     (case place_order_submit e t1 s a q p of
        (r, evs) \<Rightarrow>
          (Inr (case r of
                  Inl x \<Rightarrow> \<lparr>status = False, message = ''Error: '' @ str_exn e x,
                            order_id = None\<rparr>
                | Inr res \<Rightarrow> res), t1, evs1 @ evs))"
proof -
  obtain r evs where sub: "place_order_submit e t1 s a q p = (r, evs)"
    by (cases "place_order_submit e t1 s a q p")
  show ?thesis
    by (cases r) (simp_all add: place_order_def body_absent[OF assms(1)] assms(2) sub)
qed

lemma generate_session_only:
  "is_generate_session ev \<Longrightarrow> \<not> is_get_symbol_token ev \<and> \<not> is_place_order ev"
  by (cases ev) simp_all

lemma login_events_kinds:
  assumes "login e t = (r, t1, evs1)"
  shows "\<not> list_ex is_get_symbol_token evs1" and "\<not> list_ex is_place_order evs1"
  using login_events[OF assms] generate_session_only by (auto simp: list_ex_iff)

lemma place_order_cases:
  obtains
    (present) r evs where "session_present t" "place_order_submit e t s a q p = (r, evs)"
      "place_order e t s a q p =
         (Inr (case r of
                 Inl x \<Rightarrow> \<lparr>status = False, message = ''Error: '' @ str_exn e x,
                           order_id = None\<rparr>
               | Inr res \<Rightarrow> res), t, evs)"
  | (refused) t1 evs1 where "\<not> session_present t" "login e t = (Inr False, t1, evs1)"
      "place_order e t s a q p =
         (Inr \<lparr>status = False, message = ''Login failed'', order_id = None\<rparr>, t1, evs1)"
  | (granted) t1 evs1 r evs where "\<not> session_present t" "login e t = (Inr True, t1, evs1)"
      "place_order_submit e t1 s a q p = (r, evs)"
      "place_order e t s a q p =
         (Inr (case r of
                 Inl x \<Rightarrow> \<lparr>status = False, message = ''Error: '' @ str_exn e x,
                           order_id = None\<rparr>
               | Inr res \<Rightarrow> res), t1, evs1 @ evs)"
proof (cases "session_present t")
  case True
  obtain r evs where sub: "place_order_submit e t s a q p = (r, evs)"
    by (cases "place_order_submit e t s a q p")
  show ?thesis
    by (rule present[OF True sub]) (simp add: place_order_present[OF True] sub)
next
  case False
  obtain b t1 evs1 where l: "login e t = (Inr b, t1, evs1)" using login_Inr by blast
  show ?thesis
  proof (cases b)
    case True
    obtain r evs where sub: "place_order_submit e t1 s a q p = (r, evs)"
      by (cases "place_order_submit e t1 s a q p")
    from l True have l': "login e t = (Inr True, t1, evs1)" by simp
    show ?thesis
      by (rule granted[OF False l' sub]) (simp add: place_order_login_ok[OF False l'] sub)
  next
    case b: False
    from l b have l': "login e t = (Inr False, t1, evs1)" by simp
    show ?thesis
      by (rule refused[OF False l']) (rule place_order_login_failed[OF False l'])
  qed
qed

text \<open>
  C1. \<^verbatim>\<open>place_order\<close> without a session whose login fails returns the failure
  ``Login failed'' and calls neither symbol resolution nor the order endpoint. With a
  session (present at entry, or just established by a login that returned True), a
  symbol that resolves to no token gives the failure ``Symbol token not found for
  <symbol>'' and no call of the order endpoint. The order endpoint is called only when
  there is such a session and the symbol resolved to a token.
\<close>

theorem place_order_gates:
  "(\<not> session_present t \<and> fst (login e t) = Inr False \<longrightarrow>
      fst (place_order e t s a q p) =
        Inr \<lparr>status = False, message = ''Login failed'', order_id = None\<rparr>
      \<and> \<not> list_ex is_get_symbol_token (snd (snd (place_order e t s a q p)))
      \<and> \<not> list_ex is_place_order (snd (snd (place_order e t s a q p))))
   \<and> ((session_present t \<or> fst (login e t) = Inr True) \<and> get_symbol_token e s = Inr None \<longrightarrow>
      fst (place_order e t s a q p) =
        Inr \<lparr>status = False, message = ''Symbol token not found for '' @ py_str e s,
             order_id = None\<rparr>
      \<and> \<not> list_ex is_place_order (snd (snd (place_order e t s a q p))))
   \<and> (list_ex is_place_order (snd (snd (place_order e t s a q p))) \<longrightarrow>
      (session_present t \<or> fst (login e t) = Inr True)
      \<and> (\<exists>tok. get_symbol_token e s = Inr (Some tok)))"
proof (cases rule: place_order_cases[of t e s a q p])
  case (present r evs)
  have none: "get_symbol_token e s = Inr None \<Longrightarrow>
      r = Inr \<lparr>status = False, message = ''Symbol token not found for '' @ py_str e s,
               order_id = None\<rparr> \<and> \<not> list_ex is_place_order evs"
    using present(2) by (auto simp: submit_not_found)
  have ex: "list_ex is_place_order evs \<Longrightarrow> \<exists>tok. get_symbol_token e s = Inr (Some tok)"
    using present(2) by (rule submit_place_order_ex)
  from present(1) none ex show ?thesis by (auto simp: present(3))
next
  case (refused t1 evs1)
  from login_events_kinds[OF refused(2)] refused(1) refused(2) show ?thesis
    by (simp add: refused(3))
next
  case (granted t1 evs1 r evs)
  have none: "get_symbol_token e s = Inr None \<Longrightarrow>
      r = Inr \<lparr>status = False, message = ''Symbol token not found for '' @ py_str e s,
               order_id = None\<rparr> \<and> \<not> list_ex is_place_order evs"
    using granted(3) by (auto simp: submit_not_found)
  have ex: "list_ex is_place_order evs \<Longrightarrow> \<exists>tok. get_symbol_token e s = Inr (Some tok)"
    using granted(3) by (rule submit_place_order_ex)
  from login_events_kinds[OF granted(2)] granted(1) granted(2) none ex show ?thesis
    by (auto simp: granted(4))
qed


theorem place_order_gates_witness:
  "fst (place_order (sample_env session_refused order_accepted) sample_trader
          (PStr ''RELIANCE'') (PStr ''BUY'') PNone PNone) =
     Inr \<lparr>status = False, message = ''Login failed'', order_id = None\<rparr>
   \<and> fst (place_order (sample_env session_granted order_accepted) logged_in_trader
          (PStr ''UNKNOWNSYM'') (PStr ''SELL'') PNone PNone) =
     Inr \<lparr>status = False, message = ''Symbol token not found for UNKNOWNSYM'',
          order_id = None\<rparr>
   \<and> (\<exists>tok. get_symbol_token (sample_env session_granted order_accepted) (PStr ''RELIANCE'') = Inr (Some tok))"
proof (intro conjI)
  have h: "\<not> session_present sample_trader
      \<and> fst (login (sample_env session_refused order_accepted) sample_trader) = Inr False"
    by code_simp
  from place_order_gates[where t = sample_trader
      and e = "sample_env session_refused order_accepted"
      and s = "PStr ''RELIANCE''" and a = "PStr ''BUY''" and q = PNone and p = PNone] h
  show "fst (place_order (sample_env session_refused order_accepted) sample_trader
          (PStr ''RELIANCE'') (PStr ''BUY'') PNone PNone) =
     Inr \<lparr>status = False, message = ''Login failed'', order_id = None\<rparr>"
    by blast
next
  have h: "session_present logged_in_trader" by code_simp
  have n: "get_symbol_token (sample_env session_granted order_accepted) (PStr ''UNKNOWNSYM'') = Inr None" by code_simp
  from place_order_gates[where t = logged_in_trader
      and e = "sample_env session_granted order_accepted"
      and s = "PStr ''UNKNOWNSYM''" and a = "PStr ''SELL''" and q = PNone and p = PNone] h n
  show "fst (place_order (sample_env session_granted order_accepted) logged_in_trader
          (PStr ''UNKNOWNSYM'') (PStr ''SELL'') PNone PNone) =
     Inr \<lparr>status = False, message = ''Symbol token not found for UNKNOWNSYM'',
          order_id = None\<rparr>"
    by simp
next
  have h: "list_ex is_place_order (snd (snd (place_order
      (sample_env session_granted order_accepted) logged_in_trader
      (PStr ''RELIANCE'') (PStr ''BUY'') PNone PNone)))"
    by code_simp
  from place_order_gates[where t = logged_in_trader
      and e = "sample_env session_granted order_accepted"
      and s = "PStr ''RELIANCE''" and a = "PStr ''BUY''" and q = PNone and p = PNone] h
  show "\<exists>tok. get_symbol_token (sample_env session_granted order_accepted) (PStr ''RELIANCE'') = Inr (Some tok)"
    by blast
qed

lemma list_ex_place_order: "list_ex is_place_order evs \<longleftrightarrow> (\<exists>ps. PlaceOrder ps \<in> set evs)"
proof
  assume "list_ex is_place_order evs"
  then obtain ev where ev: "ev \<in> set evs" "is_place_order ev" by (auto simp: list_ex_iff)
  from ev(2) obtain ps where "ev = PlaceOrder ps" by (cases ev) simp_all
  with ev(1) show "\<exists>ps. PlaceOrder ps \<in> set evs" by blast
next
  assume "\<exists>ps. PlaceOrder ps \<in> set evs"
  then obtain ps where "PlaceOrder ps \<in> set evs" by blast
  moreover have "is_place_order (PlaceOrder ps)" by simp
  ultimately show "list_ex is_place_order evs" unfolding list_ex_iff by blast
qed

lemma login_no_place_order: "login e t = (r, t1, evs1) \<Longrightarrow> PlaceOrder ps \<notin> set evs1"
  using login_events[of e t r t1 evs1 "PlaceOrder ps"] by auto

lemma place_order_place_order_event:
  assumes "PlaceOrder ps \<in> set (snd (snd (place_order e t s a q p)))"
  shows "\<exists>t1 tok u. (t1 = t \<or> t1 = fst (snd (login e t)))
      \<and> get_symbol_token e s = Inr (Some tok) \<and> meth_upper e a = Inr u
      \<and> ps = submitted_params e t1 s tok u q p"
proof (cases rule: place_order_cases[of t e s a q p])
  case (present r evs)
  with assms have "PlaceOrder ps \<in> set evs" by simp
  from submit_place_order[OF present(2) this] show ?thesis by blast
next
  case (refused t1 evs1)
  with assms login_no_place_order[OF refused(2)] show ?thesis by simp
next
  case (granted t1 evs1 r evs)
  with assms login_no_place_order[OF granted(2)] have "PlaceOrder ps \<in> set evs" by simp
  from submit_place_order[OF granted(3) this] granted(2) show ?thesis by auto
qed

lemma place_order_places:
  assumes "session_present t \<or> fst (login e t) = Inr True"
    and "get_symbol_token e s = Inr (Some tok)"
  shows "list_ex is_place_order (snd (snd (place_order e t s (PStr a) q p)))"
proof (cases rule: place_order_cases[of t e s "PStr a" q p])
  case (present r evs)
  from present(1) have "smart_api t \<noteq> None" by (simp add: session_present_def)
  from submit_places[OF assms(2) this, of a q p] present(2) show ?thesis
    by (auto simp: present(3))
next
  case (refused t1 evs1)
  with assms(1) show ?thesis by simp
next
  case (granted t1 evs1 r evs)
  from login_True_smart_api[OF granted(2)] have "smart_api t1 \<noteq> None" .
  from submit_places[OF assms(2) this, of a q p] granted(3) show ?thesis
    by (auto simp: granted(4))
qed

text \<open>
  C7. For an action string, every order that \<^verbatim>\<open>place_order\<close> submits carries the
  transaction type BUY when the upper-cased action is ``BUY'' and SELL otherwise; and
  whatever the action string is, the order is submitted once there is a session and the
  symbol resolved: no action string is rejected.
\<close>

theorem place_order_transaction_type:
  "(\<forall>ps. PlaceOrder ps \<in> set (snd (snd (place_order e t s (PStr a) q p))) \<longrightarrow>
        map_of ps ''transactiontype'' =
          Some (PStr (if upper e a = ''BUY'' then ''BUY'' else ''SELL'')))
   \<and> ((session_present t \<or> fst (login e t) = Inr True)
        \<and> (\<exists>tok. get_symbol_token e s = Inr (Some tok)) \<longrightarrow>
        list_ex is_place_order (snd (snd (place_order e t s (PStr a) q p))))"
proof (intro conjI allI impI)
  fix ps
  assume "PlaceOrder ps \<in> set (snd (snd (place_order e t s (PStr a) q p)))"
  from place_order_place_order_event[OF this]
  obtain t1 tok u where "meth_upper e (PStr a) = Inr u" "ps = submitted_params e t1 s tok u q p"
    by blast
  then show "map_of ps ''transactiontype'' =
      Some (PStr (if upper e a = ''BUY'' then ''BUY'' else ''SELL''))"
    by (auto simp: submitted_params_transactiontype)
next
  assume "(session_present t \<or> fst (login e t) = Inr True)
      \<and> (\<exists>tok. get_symbol_token e s = Inr (Some tok))"
  then show "list_ex is_place_order (snd (snd (place_order e t s (PStr a) q p)))"
    using place_order_places by blast
qed

theorem place_order_transaction_type_witness:
  "(\<exists>ps. PlaceOrder ps \<in> set (snd (snd (place_order
        (sample_env session_granted order_accepted) logged_in_trader
        (PStr ''RELIANCE'') (PStr ''hold'') PNone PNone)))
      \<and> map_of ps ''transactiontype'' = Some (PStr ''SELL''))
   \<and> (\<exists>ps. PlaceOrder ps \<in> set (snd (snd (place_order
        (sample_env session_granted order_accepted) logged_in_trader
        (PStr ''RELIANCE'') (PStr ''buy'') PNone PNone)))
      \<and> map_of ps ''transactiontype'' = Some (PStr ''BUY''))"
proof -
  have h: "session_present logged_in_trader" by code_simp
  have "get_symbol_token (sample_env session_granted order_accepted) (PStr ''RELIANCE'') = Inr (Some ''2885'')" by code_simp
  then have tok: "\<exists>tok. get_symbol_token (sample_env session_granted order_accepted) (PStr ''RELIANCE'') = Inr (Some tok)" by blast
  have u1: "upper (sample_env session_granted order_accepted) ''hold'' \<noteq> ''BUY''" by code_simp
  have u2: "upper (sample_env session_granted order_accepted) ''buy'' = ''BUY''" by code_simp
  note w1 = place_order_transaction_type[where t = logged_in_trader
      and e = "sample_env session_granted order_accepted"
      and s = "PStr ''RELIANCE''" and a = "''hold''" and q = PNone and p = PNone]
  note w2 = place_order_transaction_type[where t = logged_in_trader
      and e = "sample_env session_granted order_accepted"
      and s = "PStr ''RELIANCE''" and a = "''buy''" and q = PNone and p = PNone]
  from w1 h tok u1 have "\<exists>ps. PlaceOrder ps \<in> set (snd (snd (place_order
        (sample_env session_granted order_accepted) logged_in_trader
        (PStr ''RELIANCE'') (PStr ''hold'') PNone PNone)))
      \<and> map_of ps ''transactiontype'' = Some (PStr ''SELL'')"
    by (auto simp: list_ex_place_order)
  moreover from w2 h tok u2 have "\<exists>ps. PlaceOrder ps \<in> set (snd (snd (place_order
        (sample_env session_granted order_accepted) logged_in_trader
        (PStr ''RELIANCE'') (PStr ''buy'') PNone PNone)))
      \<and> map_of ps ''transactiontype'' = Some (PStr ''BUY'')"
    by (auto simp: list_ex_place_order)
  ultimately show ?thesis by blast
qed

text \<open>
  C8, as amended. When a session exists in the sense of the guard of
  \<^verbatim>\<open>place_order\<close> (the SDK client is set and the session token is truthy: not
  None and not empty), \<^verbatim>\<open>place_order\<close> makes no session-creation call.
\<close>

theorem place_order_no_relogin:
  "session_present t \<longrightarrow>
     \<not> list_ex is_generate_session (snd (snd (place_order e t s a q p)))"
proof
  assume sp: "session_present t"
  obtain r evs where sub: "place_order_submit e t s a q p = (r, evs)"
    by (cases "place_order_submit e t s a q p")
  from submit_no_login[OF sub] show
    "\<not> list_ex is_generate_session (snd (snd (place_order e t s a q p)))"
    by (simp add: place_order_present[OF sp] sub)
qed

theorem place_order_no_relogin_witness:
  "session_present logged_in_trader
   \<and> \<not> list_ex is_generate_session (snd (snd (place_order
        (sample_env session_granted order_accepted) logged_in_trader
        (PStr ''RELIANCE'') (PStr ''BUY'') PNone PNone)))"
proof -
  have h: "session_present logged_in_trader" by code_simp
  from place_order_no_relogin[where t = logged_in_trader
      and e = "sample_env session_granted order_accepted"
      and s = "PStr ''RELIANCE''" and a = "PStr ''BUY''" and q = PNone and p = PNone] h
  show ?thesis by blast
qed

text \<open>
  C8 as stated speaks of a session token that is not None. A brokerage that grants a
  session with an empty token leaves the client set and the token not None, and the next
  \<^verbatim>\<open>place_order\<close> logs in again.
\<close>

theorem place_order_relogin_counterexample:
  "smart_api empty_token_trader \<noteq> None
   \<and> auth_token empty_token_trader \<noteq> PNone
   \<and> list_ex is_generate_session (snd (snd (place_order
        (sample_env session_empty_jwt order_accepted) empty_token_trader
        (PStr ''RELIANCE'') (PStr ''BUY'') PNone PNone)))"
  by code_simp

text \<open>
  C10. A call of \<^verbatim>\<open>place_order\<close> made while a session is present returns the
  trader as it was: the three tokens, the client handle and every other field. In
  general the trader after the call is either the trader before it or the trader that
  \<^verbatim>\<open>login\<close> left.
\<close>

theorem place_order_frame:
  "(session_present t \<longrightarrow> fst (snd (place_order e t s a q p)) = t)
   \<and> fst (snd (place_order e t s a q p)) \<in> {t, fst (snd (login e t))}"
proof (cases rule: place_order_cases[of t e s a q p])
  case (present r evs)
  then show ?thesis by simp
next
  case (refused t1 evs1)
  then show ?thesis by simp
next
  case (granted t1 evs1 r evs)
  then show ?thesis by simp
qed

theorem place_order_frame_witness:
  "session_present logged_in_trader
   \<and> fst (snd (place_order (sample_env session_refused PNone) logged_in_trader
        (PStr ''RELIANCE'') (PStr ''BUY'') PNone PNone)) = logged_in_trader"
proof -
  have h: "session_present logged_in_trader" by code_simp
  from place_order_frame[where t = logged_in_trader
      and e = "sample_env session_refused PNone"
      and s = "PStr ''RELIANCE''" and a = "PStr ''BUY''" and q = PNone and p = PNone] h
  show ?thesis by blast
qed

lemma submitted_params_price:
  "map_of (submitted_params e t s tok u q p) ''price'' =
     (if order_type t = ''LIMIT'' \<and> py_truthy p then Some (PStr (py_str e p)) else None)"
  by (simp add: submitted_params_def order_params_def Let_def)

lemma login_order_type: "order_type (fst (snd (login e t))) = order_type t"
proof -
  obtain r t1 evs1 where l: "login e t = (r, t1, evs1)" by (cases "login e t")
  from login_config[OF l] show ?thesis by (simp add: l)
qed

text \<open>
  C4, as amended. The default order type is MARKET. With order type MARKET no submitted
  order has a price field, whatever price is passed. With order type LIMIT and a truthy
  price (not None, not zero, not empty) the price field of the submitted order is
  \<^verbatim>\<open>str(price)\<close>.
\<close>

theorem place_order_price_field:
  "order_type (init_trader k u pw sd) = ''MARKET''
   \<and> (order_type t = ''MARKET'' \<longrightarrow>
        (\<forall>ps. PlaceOrder ps \<in> set (snd (snd (place_order e t s a q p))) \<longrightarrow>
              map_of ps ''price'' = None))
   \<and> (order_type t = ''LIMIT'' \<and> py_truthy p \<longrightarrow>
        (\<forall>ps. PlaceOrder ps \<in> set (snd (snd (place_order e t s a q p))) \<longrightarrow>
              map_of ps ''price'' = Some (PStr (py_str e p))))"
proof (intro conjI allI impI)
  show "order_type (init_trader k u pw sd) = ''MARKET''" by (simp add: init_trader_def)
next
  fix ps
  assume m: "order_type t = ''MARKET''"
    and "PlaceOrder ps \<in> set (snd (snd (place_order e t s a q p)))"
  from place_order_place_order_event[OF this(2)]
  obtain t1 tok v where t1: "t1 = t \<or> t1 = fst (snd (login e t))"
    and ps: "ps = submitted_params e t1 s tok v q p" by blast
  from t1 m have "order_type t1 = ''MARKET''" by (auto simp: login_order_type)
  then show "map_of ps ''price'' = None" by (simp add: ps submitted_params_price)
next
  fix ps
  assume l: "order_type t = ''LIMIT'' \<and> py_truthy p"
    and "PlaceOrder ps \<in> set (snd (snd (place_order e t s a q p)))"
  from place_order_place_order_event[OF this(2)]
  obtain t1 tok v where t1: "t1 = t \<or> t1 = fst (snd (login e t))"
    and ps: "ps = submitted_params e t1 s tok v q p" by blast
  from t1 l have "order_type t1 = ''LIMIT''" by (auto simp: login_order_type)
  with l show "map_of ps ''price'' = Some (PStr (py_str e p))"
    by (simp add: ps submitted_params_price)
qed

theorem place_order_price_field_witness:
  "(\<exists>ps. PlaceOrder ps \<in> set (snd (snd (place_order
        (sample_env session_granted order_accepted) logged_in_trader
        (PStr ''RELIANCE'') (PStr ''BUY'') PNone (PInt 25))))
      \<and> map_of ps ''price'' = None)
   \<and> (\<exists>ps. PlaceOrder ps \<in> set (snd (snd (place_order
        (sample_env session_granted order_accepted) limit_trader
        (PStr ''RELIANCE'') (PStr ''BUY'') PNone (PInt 25))))
      \<and> map_of ps ''price'' = Some (PStr ''25''))"
proof -
  have m: "order_type logged_in_trader = ''MARKET''" by code_simp
  have l: "order_type limit_trader = ''LIMIT'' \<and> py_truthy (PInt 25)" by code_simp
  have str: "py_str (sample_env session_granted order_accepted) (PInt 25) = ''25''"
    by code_simp
  have e1: "list_ex is_place_order (snd (snd (place_order
        (sample_env session_granted order_accepted) logged_in_trader
        (PStr ''RELIANCE'') (PStr ''BUY'') PNone (PInt 25))))" by code_simp
  have e2: "list_ex is_place_order (snd (snd (place_order
        (sample_env session_granted order_accepted) limit_trader
        (PStr ''RELIANCE'') (PStr ''BUY'') PNone (PInt 25))))" by code_simp
  note w1 = place_order_price_field[where t = logged_in_trader
      and e = "sample_env session_granted order_accepted"
      and s = "PStr ''RELIANCE''" and a = "PStr ''BUY''" and q = PNone and p = "PInt 25"]
  note w2 = place_order_price_field[where t = limit_trader
      and e = "sample_env session_granted order_accepted"
      and s = "PStr ''RELIANCE''" and a = "PStr ''BUY''" and q = PNone and p = "PInt 25"]
  from w1 m e1 have "\<exists>ps. PlaceOrder ps \<in> set (snd (snd (place_order
        (sample_env session_granted order_accepted) logged_in_trader
        (PStr ''RELIANCE'') (PStr ''BUY'') PNone (PInt 25))))
      \<and> map_of ps ''price'' = None"
    unfolding list_ex_place_order by blast
  moreover from w2 l e2 str have "\<exists>ps. PlaceOrder ps \<in> set (snd (snd (place_order
        (sample_env session_granted order_accepted) limit_trader
        (PStr ''RELIANCE'') (PStr ''BUY'') PNone (PInt 25))))
      \<and> map_of ps ''price'' = Some (PStr ''25'')"
    unfolding list_ex_place_order by metis
  ultimately show ?thesis by blast
qed

text \<open>
  C4 as stated promises the price field whenever a price is supplied. A supplied price
  of 0 under order type LIMIT is not truthy, and the order goes out without a price.
\<close>

theorem place_order_price_zero_counterexample:
  "order_type limit_trader = ''LIMIT''
   \<and> snd (snd (place_order (sample_env session_granted order_accepted) limit_trader
        (PStr ''RELIANCE'') (PStr ''BUY'') PNone (PInt 0))) =
      [GetSymbolToken (PStr ''RELIANCE''),
       PlaceOrder
         [(''variety'', PStr ''NORMAL''), (''tradingsymbol'', PStr ''RELIANCE''),
          (''symboltoken'', PStr ''2885''), (''transactiontype'', PStr ''BUY''),
          (''exchange'', PStr ''NSE''), (''ordertype'', PStr ''LIMIT''),
          (''producttype'', PStr ''MIS''), (''duration'', PStr ''DAY''),
          (''quantity'', PStr ''1'')]]"
  by code_simp






text \<open>
  An answer with a true status that lacks the refresh token raises KeyError after the
  first assignment: the login returns False with the session token set.
\<close>

lemma login_partial_update_example:
  "fst (login (sample_env session_without_refresh order_accepted) sample_trader) = Inr False
   \<and> auth_token (fst (snd (login (sample_env session_without_refresh order_accepted)
        sample_trader))) = PStr ''jwt''
   \<and> refresh_token (fst (snd (login (sample_env session_without_refresh order_accepted)
        sample_trader))) = PNone"
  by code_simp

section \<open>Properties of the webhook handler\<close>

lemma place_order_Inr: "\<exists>out t1 evs. place_order e t s a q p = (Inr out, t1, evs)"
  by (cases rule: place_order_cases[of t e s a q p]) auto

lemma webhook_fields_dict:
  "webhook_fields (PDict kvs) =
     Inr (case map_of kvs ''action'' of None \<Rightarrow> PNone | Some v \<Rightarrow> v,
          case map_of kvs ''symbol'' of None \<Rightarrow> PStr ''NIFTY'' | Some v \<Rightarrow> v,
          case map_of kvs ''signal'' of None \<Rightarrow> PNone | Some v \<Rightarrow> v,
          case map_of kvs ''price'' of None \<Rightarrow> PNone | Some v \<Rightarrow> v,
          case map_of kvs ''message'' of None \<Rightarrow> PNone | Some v \<Rightarrow> v)"
  by (simp add: webhook_fields_def)

lemma webhook_fields_not_dict:
  "\<not> is_dict data \<Longrightarrow> webhook_fields data = Inl (AttributeError data ''get'')"
  by (cases data) (simp_all add: webhook_fields_def)

lemma webhook_raised: "webhook e t (Inl x) = (\<lparr>json = error_json (str_exn e x), code = 500\<rparr>, t, [])"
  by (simp add: webhook_def webhook_body_def)

lemma webhook_no_data:
  "\<not> py_truthy data \<Longrightarrow>
   webhook e t (Inr data) = (\<lparr>json = error_json ''No data received'', code = 400\<rparr>, t, [])"
  by (simp add: webhook_def webhook_body_def)

lemma webhook_not_dict:
  assumes "py_truthy data" "\<not> is_dict data"
  shows "webhook e t (Inr data) =
     (\<lparr>json = error_json (str_exn e (AttributeError data ''get'')), code = 500\<rparr>, t, [])"
  using assms(1) by (simp add: webhook_def webhook_body_def webhook_fields_not_dict[OF assms(2)])

lemma webhook_invalid_action:
  assumes "kvs \<noteq> []" "\<not> valid_action (get_or kvs ''action'' PNone)"
  shows "webhook e t (Inr (PDict kvs)) =
     (\<lparr>json = error_json ''Invalid action'', code = 400\<rparr>, t, [])"
  using assms
  by (simp add: webhook_def webhook_body_def webhook_fields_dict get_or_def valid_action_def)

lemma valid_action_truthy: "valid_action a \<Longrightarrow> py_truthy a \<and> a \<in> set [PStr ''BUY'', PStr ''SELL'']"
  by (auto simp: valid_action_def)

lemma webhook_unhashable_signal:
  assumes "kvs \<noteq> []" "valid_action (get_or kvs ''action'' PNone)"
    "get_quantity_for_signal (get_or kvs ''signal'' PNone) = Inl x"
  shows "webhook e t (Inr (PDict kvs)) =
     (\<lparr>json = error_json (str_exn e x), code = 500\<rparr>, t, [])"
  using assms(1,3) valid_action_truthy[OF assms(2)]
  by (simp add: webhook_def webhook_body_def webhook_fields_dict get_or_def)

lemma webhook_dispatch:
  assumes "kvs \<noteq> []" "valid_action (get_or kvs ''action'' PNone)"
    "get_quantity_for_signal (get_or kvs ''signal'' PNone) = Inr quantity"
    "place_order e t (get_or kvs ''symbol'' (PStr ''NIFTY'')) (get_or kvs ''action'' PNone)
        (PInt quantity) (get_or kvs ''price'' PNone) = (Inr out, t1, evs)"
  shows "webhook e t (Inr (PDict kvs)) =
     (webhook_response e out (get_or kvs ''signal'' PNone) (get_or kvs ''action'' PNone)
        (get_or kvs ''symbol'' (PStr ''NIFTY'')) quantity,
      t1,
      Dispatch (get_or kvs ''symbol'' (PStr ''NIFTY'')) (get_or kvs ''action'' PNone)
        (PInt quantity) (get_or kvs ''price'' PNone) # evs)"
  using assms(1,3,4) valid_action_truthy[OF assms(2)]
  by (simp add: webhook_def webhook_body_def webhook_fields_dict get_or_def)

lemma webhook_response_code:
  "code (webhook_response e out signal action symbol quantity) = (if status out then 200 else 400)"
  by (simp add: webhook_response_def Let_def)


text \<open>
  C2, as amended. The webhook handler answers, for what \<^verbatim>\<open>request.get_json()\<close>
  did:
  \<^item> it raised: status 500;
  \<^item> it returned a falsy value (None, an empty object, an empty list, zero, an empty
    string, false): status 400 with the message ``No data received'';
  \<^item> it returned a truthy value that is not an object: status 500 (the
    AttributeError of \<^verbatim>\<open>data.get\<close>);
  \<^item> it returned a non-empty object whose action is absent or not one of the literals
    BUY and SELL: status 400 with the message ``Invalid action'', and the dispatcher is
    not called;
  \<^item> it returned a non-empty object with a valid action and a signal that cannot be
    hashed: status 500, and the dispatcher is not called;
  \<^item> otherwise the dispatcher is called once, and the status is 200 when its outcome
    reports success and 400 when it reports failure.
\<close>

theorem webhook_status:
  "webhook e t (Inl x) = (\<lparr>json = error_json (str_exn e x), code = 500\<rparr>, t, [])
   \<and> (\<not> py_truthy data \<longrightarrow>
        webhook e t (Inr data) =
          (\<lparr>json = error_json ''No data received'', code = 400\<rparr>, t, []))
   \<and> (py_truthy data \<and> \<not> is_dict data \<longrightarrow>
        code (fst (webhook e t (Inr data))) = 500 \<and> snd (snd (webhook e t (Inr data))) = [])
   \<and> (kvs \<noteq> [] \<and> \<not> valid_action (get_or kvs ''action'' PNone) \<longrightarrow>
        webhook e t (Inr (PDict kvs)) =
          (\<lparr>json = error_json ''Invalid action'', code = 400\<rparr>, t, []))
   \<and> (kvs \<noteq> [] \<and> valid_action (get_or kvs ''action'' PNone)
        \<and> get_quantity_for_signal (get_or kvs ''signal'' PNone) = Inl y \<longrightarrow>
        code (fst (webhook e t (Inr (PDict kvs)))) = 500
        \<and> snd (snd (webhook e t (Inr (PDict kvs)))) = [])
   \<and> (kvs \<noteq> [] \<and> valid_action (get_or kvs ''action'' PNone)
        \<and> get_quantity_for_signal (get_or kvs ''signal'' PNone) = Inr quantity \<longrightarrow>
        (\<exists>out t1 evs.
           place_order e t (get_or kvs ''symbol'' (PStr ''NIFTY'')) (get_or kvs ''action'' PNone)
             (PInt quantity) (get_or kvs ''price'' PNone) = (Inr out, t1, evs)
           \<and> code (fst (webhook e t (Inr (PDict kvs)))) = (if status out then 200 else 400)
           \<and> snd (snd (webhook e t (Inr (PDict kvs)))) =
               Dispatch (get_or kvs ''symbol'' (PStr ''NIFTY'')) (get_or kvs ''action'' PNone)
                 (PInt quantity) (get_or kvs ''price'' PNone) # evs))"
proof (intro conjI impI)
  show "webhook e t (Inl x) = (\<lparr>json = error_json (str_exn e x), code = 500\<rparr>, t, [])"
    by (rule webhook_raised)
next
  assume "\<not> py_truthy data"
  then show "webhook e t (Inr data) =
      (\<lparr>json = error_json ''No data received'', code = 400\<rparr>, t, [])"
    by (rule webhook_no_data)
next
  assume "py_truthy data \<and> \<not> is_dict data"
  then show "code (fst (webhook e t (Inr data))) = 500"
    and "snd (snd (webhook e t (Inr data))) = []"
    by (simp_all add: webhook_not_dict)
next
  assume "kvs \<noteq> [] \<and> \<not> valid_action (get_or kvs ''action'' PNone)"
  then show "webhook e t (Inr (PDict kvs)) =
      (\<lparr>json = error_json ''Invalid action'', code = 400\<rparr>, t, [])"
    by (simp add: webhook_invalid_action)
next
  assume "kvs \<noteq> [] \<and> valid_action (get_or kvs ''action'' PNone)
        \<and> get_quantity_for_signal (get_or kvs ''signal'' PNone) = Inl y"
  then show "code (fst (webhook e t (Inr (PDict kvs)))) = 500"
    and "snd (snd (webhook e t (Inr (PDict kvs)))) = []"
    by (simp_all add: webhook_unhashable_signal)
next
  assume a: "kvs \<noteq> [] \<and> valid_action (get_or kvs ''action'' PNone)
        \<and> get_quantity_for_signal (get_or kvs ''signal'' PNone) = Inr quantity"
  obtain out t1 evs where po:
    "place_order e t (get_or kvs ''symbol'' (PStr ''NIFTY'')) (get_or kvs ''action'' PNone)
       (PInt quantity) (get_or kvs ''price'' PNone) = (Inr out, t1, evs)"
    using place_order_Inr by blast
  from a have w: "webhook e t (Inr (PDict kvs)) =
     (webhook_response e out (get_or kvs ''signal'' PNone) (get_or kvs ''action'' PNone)
        (get_or kvs ''symbol'' (PStr ''NIFTY'')) quantity,
      t1,
      Dispatch (get_or kvs ''symbol'' (PStr ''NIFTY'')) (get_or kvs ''action'' PNone)
        (PInt quantity) (get_or kvs ''price'' PNone) # evs)"
    by (simp add: webhook_dispatch[OF _ _ _ po])
  show "\<exists>out t1 evs.
           place_order e t (get_or kvs ''symbol'' (PStr ''NIFTY'')) (get_or kvs ''action'' PNone)
             (PInt quantity) (get_or kvs ''price'' PNone) = (Inr out, t1, evs)
           \<and> code (fst (webhook e t (Inr (PDict kvs)))) = (if status out then 200 else 400)
           \<and> snd (snd (webhook e t (Inr (PDict kvs)))) =
               Dispatch (get_or kvs ''symbol'' (PStr ''NIFTY'')) (get_or kvs ''action'' PNone)
                 (PInt quantity) (get_or kvs ''price'' PNone) # evs"
    using po by (simp add: w webhook_response_code)
qed

text \<open>
  C2 as stated answers every body whose action field is absent with the message
  ``Invalid action''. The empty object has no action field and is answered with ``No
  data received''.
\<close>

theorem webhook_empty_object_counterexample:
  "get_or [] ''action'' PNone = PNone
   \<and> fst (webhook (sample_env session_granted order_accepted) sample_trader (Inr (PDict []))) =
       \<lparr>json = [(''status'', PStr ''error''), (''message'', PStr ''No data received'')],
        code = 400\<rparr>"
  by code_simp


theorem webhook_status_witness:
  "fst (webhook (sample_env session_granted order_accepted) sample_trader (Inr PNone)) =
       \<lparr>json = error_json ''No data received'', code = 400\<rparr>
   \<and> webhook (sample_env session_granted order_accepted) sample_trader
        (Inr (PDict [(''action'', PStr ''HOLD'')])) =
       (\<lparr>json = error_json ''Invalid action'', code = 400\<rparr>, sample_trader, [])
   \<and> code (fst (webhook (sample_env session_granted order_accepted) sample_trader
        (Inr (PList [PInt 1])))) = 500
   \<and> code (fst (webhook (sample_env session_granted order_accepted) sample_trader
        (Inr (PDict [(''action'', PStr ''BUY''), (''signal'', PList [])])))) = 500
   \<and> code (fst (webhook (sample_env session_granted order_accepted) sample_trader
        (Inr (PDict [(''action'', PStr ''BUY''), (''symbol'', PStr ''RELIANCE''),
                     (''signal'', PStr ''2G_BOX'')])))) = 200
   \<and> code (fst (webhook (sample_env session_granted order_accepted) sample_trader
        (Inr (PDict [(''action'', PStr ''SELL''), (''symbol'', PStr ''UNKNOWNSYM'')])))) = 400"
proof (intro conjI)
  have "\<not> py_truthy PNone" by simp
  with webhook_status[where e = "sample_env session_granted order_accepted"
      and t = sample_trader and data = PNone]
  show "fst (webhook (sample_env session_granted order_accepted) sample_trader (Inr PNone)) =
       \<lparr>json = error_json ''No data received'', code = 400\<rparr>"
    by simp
next
  have "[(''action'', PStr ''HOLD'')] \<noteq> []
      \<and> \<not> valid_action (get_or [(''action'', PStr ''HOLD'')] ''action'' PNone)"
    by code_simp
  with webhook_status[where e = "sample_env session_granted order_accepted"
      and t = sample_trader and kvs = "[(''action'', PStr ''HOLD'')]"]
  show "webhook (sample_env session_granted order_accepted) sample_trader
        (Inr (PDict [(''action'', PStr ''HOLD'')])) =
       (\<lparr>json = error_json ''Invalid action'', code = 400\<rparr>, sample_trader, [])"
    by blast
next
  have "py_truthy (PList [PInt 1]) \<and> \<not> is_dict (PList [PInt 1])" by simp
  with webhook_status[where e = "sample_env session_granted order_accepted"
      and t = sample_trader and data = "PList [PInt 1]"]
  show "code (fst (webhook (sample_env session_granted order_accepted) sample_trader
        (Inr (PList [PInt 1])))) = 500"
    by blast
next
  let ?kvs = "[(''action'', PStr ''BUY''), (''signal'', PList [])]"
  have "?kvs \<noteq> [] \<and> valid_action (get_or ?kvs ''action'' PNone)
      \<and> get_quantity_for_signal (get_or ?kvs ''signal'' PNone) = Inl (TypeError (PList []))"
    by code_simp
  with webhook_status[where e = "sample_env session_granted order_accepted"
      and t = sample_trader and kvs = ?kvs and y = "TypeError (PList [])"]
  show "code (fst (webhook (sample_env session_granted order_accepted) sample_trader
        (Inr (PDict ?kvs)))) = 500"
    by blast
next
  let ?e = "sample_env session_granted order_accepted"
  let ?kvs = "[(''action'', PStr ''BUY''), (''symbol'', PStr ''RELIANCE''),
               (''signal'', PStr ''2G_BOX'')]"
  have h: "?kvs \<noteq> [] \<and> valid_action (get_or ?kvs ''action'' PNone)
      \<and> get_quantity_for_signal (get_or ?kvs ''signal'' PNone) = Inr 2"
    by code_simp
  have st: "fst (place_order ?e sample_trader (get_or ?kvs ''symbol'' (PStr ''NIFTY''))
      (get_or ?kvs ''action'' PNone) (PInt 2) (get_or ?kvs ''price'' PNone)) =
        Inr \<lparr>status = True, message = ''Order placed: BUY 2 RELIANCE'',
             order_id = Some (PStr ''ORD1'')\<rparr>"
    by code_simp
  from webhook_status[where e = ?e and t = sample_trader and kvs = ?kvs and quantity = 2] h
  obtain out t1 evs where
    "place_order ?e sample_trader (get_or ?kvs ''symbol'' (PStr ''NIFTY''))
        (get_or ?kvs ''action'' PNone) (PInt 2) (get_or ?kvs ''price'' PNone) = (Inr out, t1, evs)"
    and c: "code (fst (webhook ?e sample_trader (Inr (PDict ?kvs)))) =
        (if status out then 200 else 400)"
    by blast
  with st have "status out" by simp
  with c show "code (fst (webhook ?e sample_trader (Inr (PDict ?kvs)))) = 200" by simp
next
  let ?e = "sample_env session_granted order_accepted"
  let ?kvs = "[(''action'', PStr ''SELL''), (''symbol'', PStr ''UNKNOWNSYM'')]"
  have h: "?kvs \<noteq> [] \<and> valid_action (get_or ?kvs ''action'' PNone)
      \<and> get_quantity_for_signal (get_or ?kvs ''signal'' PNone) = Inr 1"
    by code_simp
  have st: "fst (place_order ?e sample_trader (get_or ?kvs ''symbol'' (PStr ''NIFTY''))
      (get_or ?kvs ''action'' PNone) (PInt 1) (get_or ?kvs ''price'' PNone)) =
        Inr \<lparr>status = False, message = ''Symbol token not found for UNKNOWNSYM'',
             order_id = None\<rparr>"
    by code_simp
  from webhook_status[where e = ?e and t = sample_trader and kvs = ?kvs and quantity = 1] h
  obtain out t1 evs where
    "place_order ?e sample_trader (get_or ?kvs ''symbol'' (PStr ''NIFTY''))
        (get_or ?kvs ''action'' PNone) (PInt 1) (get_or ?kvs ''price'' PNone) = (Inr out, t1, evs)"
    and c: "code (fst (webhook ?e sample_trader (Inr (PDict ?kvs)))) =
        (if status out then 200 else 400)"
    by blast
  with st have "\<not> status out" by simp
  with c show "code (fst (webhook ?e sample_trader (Inr (PDict ?kvs)))) = 400" by simp
qed

end
